theory Spec2Isabelle
  imports Main
begin

section \<open>Data model\<close>

text \<open>
  The service is a Flask application with three handlers in \<^verbatim>\<open>app/routes.py\<close>:
  \<^verbatim>\<open>transpile_circuit\<close>, \<^verbatim>\<open>execute_circuit\<close> and \<^verbatim>\<open>get_result\<close>. Request and response
  bodies are JSON values; a parsed JSON object is an association list read with
  \<open>map_of\<close>, as a Python \<^verbatim>\<open>dict\<close> is read with \<^verbatim>\<open>in\<close>, \<^verbatim>\<open>[]\<close> and \<^verbatim>\<open>.get\<close>.
\<close>

datatype json =
    JNull
  | JBool bool
  | JNum int
  | JStr string
  | JArr "json list"
  | JObj "(string \<times> json) list"

text \<open>The Python exceptions that escape a handler; Flask answers each with status 500.\<close>

datatype py_exn =
    KeyError string
  | AttributeError
  | TypeError
  | JSONDecodeError
  | IntegrityError

text \<open>
  What a handler hands back to Flask: \<^verbatim>\<open>jsonify(body), status\<close> with the headers the
  handler added, \<^verbatim>\<open>abort(status)\<close>, or an exception nobody caught.
\<close>

datatype response =
    Jsonify nat "(string \<times> string) list" json
  | Abort nat
  | Unhandled py_exn

fun status_code :: "response \<Rightarrow> nat" where
  "status_code (Jsonify s hs b) = s"
| "status_code (Abort s) = s"
| "status_code (Unhandled e) = 500"

fun status_of :: "response option \<Rightarrow> nat option" where
  "status_of None = None"
| "status_of (Some r) = Some (status_code r)"

text \<open>The keys of the JSON body a response carries (none for an abort or a crash).\<close>

fun body_keys :: "response \<Rightarrow> string list" where
  "body_keys (Jsonify s hs (JObj kvs)) = map fst kvs"
| "body_keys r = []"

subsection \<open>The request fields read by both POST handlers\<close>

text \<open>
  \<^verbatim>\<open>request.json\<close> is \<open>None\<close> when the request carries no JSON body and \<open>Some d\<close> for a
  JSON object \<open>d\<close>. Lines 36--44 of \<^verbatim>\<open>transpile_circuit\<close> and lines 118--125 of
  \<^verbatim>\<open>execute_circuit\<close> are the same code:
  \<^verbatim>\<open>
    if not request.json or not 'impl-url' in request.json or not 'qpu-name' in request.json:
        abort(400)
    impl_url = request.json['impl-url']
    provider = request.json["provider"]
    sdk = request.json["sdk"]
    qpu_name = request.json['qpu-name']
    input_params = request.json.get('input-params', "")
    input_params = parameters.ParameterDictionary(input_params)
  \<close>
  An empty dictionary is falsy in Python, so \<open>Some []\<close> is rejected like \<open>None\<close>.
  \<^verbatim>\<open>ParameterDictionary\<close> wraps the value it is given; the model passes the value on.
\<close>

record request_fields =
  impl_url :: json
  provider :: json
  sdk :: json
  qpu_name :: json
  input_params :: json

definition has_key :: "(string \<times> json) list \<Rightarrow> string \<Rightarrow> bool" where
  "has_key d k = (map_of d k \<noteq> None)"

definition bad_request :: "(string \<times> json) list option \<Rightarrow> bool" where
  "bad_request rj =
     (case rj of
        None \<Rightarrow> True
      | Some d \<Rightarrow> d = [] \<or> \<not> has_key d ''impl-url'' \<or> \<not> has_key d ''qpu-name'')"

definition subscript :: "(string \<times> json) list \<Rightarrow> string \<Rightarrow> py_exn + json" where
  "subscript d k = (case map_of d k of None \<Rightarrow> Inl (KeyError k) | Some v \<Rightarrow> Inr v)"

definition get_default :: "(string \<times> json) list \<Rightarrow> string \<Rightarrow> json \<Rightarrow> json" where
  "get_default d k dflt = (case map_of d k of None \<Rightarrow> dflt | Some v \<Rightarrow> v)"

definition read_fields :: "(string \<times> json) list option \<Rightarrow> response + request_fields" where
  "read_fields rj =
     (if bad_request rj then Inl (Abort 400)
      else case rj of
        None \<Rightarrow> Inl (Abort 400)
      | Some d \<Rightarrow>
          (case subscript d ''impl-url'' of
             Inl e \<Rightarrow> Inl (Unhandled e)
           | Inr u \<Rightarrow>
          (case subscript d ''provider'' of
             Inl e \<Rightarrow> Inl (Unhandled e)
           | Inr p \<Rightarrow>
          (case subscript d ''sdk'' of
             Inl e \<Rightarrow> Inl (Unhandled e)
           | Inr s \<Rightarrow>
          (case subscript d ''qpu-name'' of
             Inl e \<Rightarrow> Inl (Unhandled e)
           | Inr q \<Rightarrow>
               Inr \<lparr>impl_url = u, provider = p, sdk = s, qpu_name = q,
                    input_params = get_default d ''input-params'' (JStr [])\<rparr>)))))"

subsection \<open>The short implementation name\<close>

text \<open>
  Line 46: \<^verbatim>\<open>re.match(".*/(?P<file>.*\\.py)", impl_url).group('file')\<close>.
  \<^verbatim>\<open>re.match\<close> anchors at the start of the string only. A greedy \<^verbatim>\<open>.*\<close> first takes
  every character up to the next line feed (\<^verbatim>\<open>.\<close> matches no line feed) and gives
  characters back one at a time until the rest of the pattern matches: \<open>greedy f n\<close>
  tries \<open>f n\<close>, then \<open>f (n - 1)\<close>, and so on down to \<open>f 0\<close>, and keeps the first success.
\<close>

definition line_feed :: char where
  "line_feed = CHR 0x0A"

definition dot_run :: "string \<Rightarrow> nat" where
  "dot_run s = length (takeWhile (\<lambda>c. c \<noteq> line_feed) s)"

fun greedy :: "(nat \<Rightarrow> 'a option) \<Rightarrow> nat \<Rightarrow> 'a option" where
  "greedy f 0 = f 0"
| "greedy f (Suc k) = (case f (Suc k) of Some r \<Rightarrow> Some r | None \<Rightarrow> greedy f k)"

text \<open>The group \<^verbatim>\<open>(?P<file>.*\.py)\<close> matched at the start of \<open>t\<close>.\<close>

definition match_file :: "string \<Rightarrow> string option" where
  "match_file t =
     greedy (\<lambda>k. if take 3 (drop k t) = ''.py'' then Some (take (k + 3) t) else None)
            (dot_run t)"

text \<open>The whole pattern matched at the start of \<open>s\<close>; the result is the group \<^verbatim>\<open>file\<close>.\<close>

definition re_match_file :: "string \<Rightarrow> string option" where
  "re_match_file s =
     greedy (\<lambda>i. if take 1 (drop i s) = ''/'' then match_file (drop (Suc i) s) else None)
            (dot_run s)"

subsection \<open>External collaborators\<close>

text \<open>
  The implementation loader, the backend resolver and the tket handler live outside
  \<^verbatim>\<open>routes.py\<close>; the handler is verified for every behaviour they may have, so they
  are parameters. \<open>'c\<close> is the type of circuits, \<open>'b\<close> of backend handles.

  \<^verbatim>\<open>prepare_code_from_url\<close> is called inside \<^verbatim>\<open>try\<close>: it raises (with a message),
  returns a falsy value, or returns a circuit. \<^verbatim>\<open>tket_transpile_circuit\<close> is called
  inside the loop's \<^verbatim>\<open>try\<close>: it returns the lowered circuit or raises one of the three
  exception classes the loop tells apart.
\<close>

datatype 'c load_result = LoadRaised string | LoadFalsy | Loaded 'c

datatype 'c outcome =
    Lowered 'c
  | UnsupportedGate string
  | TooManyQubits
  | OtherException

record ('c, 'b) env =
  prepare_code_from_url :: "json \<Rightarrow> json \<Rightarrow> 'c load_result"
  get_backend :: "json \<Rightarrow> json \<Rightarrow> 'b option"
  is_tk_circuit :: "'c \<Rightarrow> bool"
  tket_transpile_circuit :: "'c \<Rightarrow> json \<Rightarrow> 'b \<Rightarrow> bool \<Rightarrow> 'c outcome"
  valid_circuit :: "'b \<Rightarrow> 'c \<Rightarrow> bool"
  n_qubits :: "'c \<Rightarrow> int"
  depth :: "'c \<Rightarrow> int"

text \<open>
  The calls a request makes to its collaborators, in order. An \<open>Attempt\<close> records the
  circuit and the \<^verbatim>\<open>precompile_circuit\<close> flag handed to \<^verbatim>\<open>tket_transpile_circuit\<close>
  and what the call did; \<open>ValidCircuit\<close> records the final check and its answer.
\<close>

datatype 'c event =
    SetupCredentials json json
  | PrepareCode json json
  | GetBackend json json
  | Attempt 'c bool "'c outcome"
  | ValidCircuit 'c bool

section \<open>The convergence loop\<close>

text \<open>
  Lines 69--100:
  \<^verbatim>\<open>
    precompiled_circuit = False
    while not is_tk_circuit(circuit):
        try:
            circuit = tket_transpile_circuit(circuit, sdk=sdk, backend=backend, ...,
                                             precompile_circuit=precompiled_circuit)
        except UnsupportedGateException as e:
            if not precompiled_circuit:
                precompiled_circuit = True
                continue
            else:
                break
        except TooManyQubitsException as e:
            return jsonify({'error': 'too many qubits required'}), 200
        except Exception as e:
            abort(500)
  \<close>
  Nothing bounds the number of iterations, so the loop takes fuel: one unit per call of
  \<^verbatim>\<open>tket_transpile_circuit\<close>. \<open>StillRunning\<close> is the loop after the fuel is used up; the
  calls made so far are returned in every case.
\<close>

datatype 'c loop_exit =
    ConditionFalse 'c
  | Break 'c
  | Return response
  | StillRunning

fun convergence_loop ::
  "('c, 'b) env \<Rightarrow> json \<Rightarrow> 'b \<Rightarrow> nat \<Rightarrow> 'c \<Rightarrow> bool \<Rightarrow> 'c loop_exit \<times> 'c event list" where
  "convergence_loop env s b 0 circuit precompiled_circuit =
     (if is_tk_circuit env circuit then (ConditionFalse circuit, [])
      else (StillRunning, []))"
| "convergence_loop env s b (Suc fuel) circuit precompiled_circuit =
     (if is_tk_circuit env circuit then (ConditionFalse circuit, [])
      else
        (case tket_transpile_circuit env circuit s b precompiled_circuit of
           Lowered circuit' \<Rightarrow>
             (let (x, tr) = convergence_loop env s b fuel circuit' precompiled_circuit
              in (x, Attempt circuit precompiled_circuit (Lowered circuit') # tr))
         | UnsupportedGate g \<Rightarrow>
             (if \<not> precompiled_circuit then
                (let (x, tr) = convergence_loop env s b fuel circuit True
                 in (x, Attempt circuit precompiled_circuit (UnsupportedGate g) # tr))
              else (Break circuit, [Attempt circuit precompiled_circuit (UnsupportedGate g)]))
         | TooManyQubits \<Rightarrow>
             (Return (Jsonify 200 [] (JObj [(''error'', JStr ''too many qubits required'')])),
              [Attempt circuit precompiled_circuit TooManyQubits])
         | OtherException \<Rightarrow>
             (Return (Abort 500), [Attempt circuit precompiled_circuit OtherException])))"

section \<open>POST /transpile\<close>

text \<open>
  Lines 102--112, after the loop: the final check, then the metrics.
\<close>

definition report :: "('c, 'b) env \<Rightarrow> 'b \<Rightarrow> 'c \<Rightarrow> response option \<times> 'c event list" where
  "report env b circuit =
     (if \<not> valid_circuit env b circuit then (Some (Abort 500), [ValidCircuit circuit False])
      else (Some (Jsonify 200 []
                   (JObj [(''depth'', JNum (depth env circuit)),
                          (''width'', JNum (n_qubits env circuit))])),
            [ValidCircuit circuit True]))"

text \<open>
  \<^verbatim>\<open>abort(404)\<close> raises werkzeug's \<^verbatim>\<open>NotFound\<close>, a subclass of \<^verbatim>\<open>Exception\<close>. At line 56
  it is raised inside the \<^verbatim>\<open>try\<close> whose handler (line 58) is \<^verbatim>\<open>except Exception\<close>, so
  it is caught there and its text becomes the \<^verbatim>\<open>error\<close> field of a 200 response.
\<close>

definition str_NotFound :: string where
  "str_NotFound = ''404 Not Found: The requested URL was not found on the server. If you entered the URL manually please check your spelling and try again.''"

definition error_body :: "string \<Rightarrow> json" where
  "error_body msg = JObj [(''error'', JStr msg)]"

text \<open>
  How the handler goes on when the loop is left: after the \<^verbatim>\<open>while\<close> condition turned
  false and after \<^verbatim>\<open>break\<close> control reaches line 102; a \<^verbatim>\<open>return\<close> or \<^verbatim>\<open>abort\<close> inside
  the loop is the response.
\<close>

definition after_loop ::
  "('c, 'b) env \<Rightarrow> 'b \<Rightarrow> 'c loop_exit \<Rightarrow> response option \<times> 'c event list" where
  "after_loop env b x =
     (case x of
        ConditionFalse c \<Rightarrow> report env b c
      | Break c \<Rightarrow> report env b c
      | Return r \<Rightarrow> (Some r, [])
      | StillRunning \<Rightarrow> (None, []))"

text \<open>
  Lines 62--112, once the circuit is loaded: resolve the backend, run the loop, report.
\<close>

definition compile_loaded ::
  "('c, 'b) env \<Rightarrow> nat \<Rightarrow> request_fields \<Rightarrow> 'c \<Rightarrow> response option \<times> 'c event list" where
  "compile_loaded env fuel rq circuit =
     (case get_backend env (provider rq) (qpu_name rq) of
        None \<Rightarrow> (Some (Abort 404), [GetBackend (provider rq) (qpu_name rq)])
      | Some b \<Rightarrow>
          (let (x, tr) = convergence_loop env (sdk rq) b fuel circuit False;
               (r, tr') = after_loop env b x
           in (r, GetBackend (provider rq) (qpu_name rq) # tr @ tr')))"

text \<open>
  The handler. The result is the response (\<open>None\<close> while the loop is still running
  after \<open>fuel\<close> attempts) and the calls made to the collaborators.
\<close>

definition transpile_circuit ::
  "('c, 'b) env \<Rightarrow> nat \<Rightarrow> (string \<times> json) list option \<Rightarrow> response option \<times> 'c event list" where
  "transpile_circuit env fuel rj =
     (case read_fields rj of
        Inl r \<Rightarrow> (Some r, [])
      | Inr rq \<Rightarrow>
          (case impl_url rq of
             JStr u \<Rightarrow>
               (case re_match_file u of
                  None \<Rightarrow> (Some (Unhandled AttributeError), [])
                | Some short_impl_name \<Rightarrow>
                    (case prepare_code_from_url env (impl_url rq) (input_params rq) of
                       LoadRaised msg \<Rightarrow>
                         (Some (Jsonify 200 [] (error_body msg)),
                          [SetupCredentials (sdk rq) (input_params rq),
                           PrepareCode (impl_url rq) (input_params rq)])
                     | LoadFalsy \<Rightarrow>
                         (Some (Jsonify 200 [] (error_body str_NotFound)),
                          [SetupCredentials (sdk rq) (input_params rq),
                           PrepareCode (impl_url rq) (input_params rq)])
                     | Loaded circuit \<Rightarrow>
                         (fst (compile_loaded env fuel rq circuit),
                          SetupCredentials (sdk rq) (input_params rq)
                          # PrepareCode (impl_url rq) (input_params rq)
                          # snd (compile_loaded env fuel rq circuit))))
           | _ \<Rightarrow> (Some (Unhandled TypeError), [])))"

section \<open>POST /execute and GET /results\<close>

text \<open>
  The job queue holds the keyword arguments of each enqueued call. The result store is
  the table behind \<^verbatim>\<open>app/result_model.py\<close>: a \<^verbatim>\<open>Result\<close> row has the primary key
  \<^verbatim>\<open>id\<close>, the flag \<^verbatim>\<open>complete\<close> (\<^verbatim>\<open>False\<close> unless given) and the serialized \<^verbatim>\<open>result\<close>
  (\<^verbatim>\<open>None\<close> unless given), as \<^verbatim>\<open>test_results.py\<close> creates them.
\<close>

record job =
  job_id :: string
  job_impl_url :: json
  job_qpu_name :: json
  job_input_params :: json
  job_shots :: json
  job_provider :: json
  job_sdk :: json

record result_row =
  row_id :: string
  complete :: bool
  result :: "string option"

record service =
  execute_queue :: "job list"
  results :: "string \<rightharpoonup> result_row"

text \<open>\<^verbatim>\<open>Result(id=...)\<close> with the column defaults.\<close>

definition Result :: "string \<Rightarrow> result_row" where
  "Result i = \<lparr>row_id = i, complete = False, result = None\<rparr>"

text \<open>\<^verbatim>\<open>Result.query.get(result_id)\<close>: the row, or \<^verbatim>\<open>None\<close>; it reads only.\<close>

definition query_get :: "service \<Rightarrow> string \<Rightarrow> result_row option" where
  "query_get st i = results st i"

text \<open>
  \<^verbatim>\<open>db.session.add(result); db.session.commit()\<close>: a second row under a primary key that
  is taken is refused by the database.
\<close>

definition add_commit :: "service \<Rightarrow> result_row \<Rightarrow> py_exn + service" where
  "add_commit st r =
     (case results st (row_id r) of
        Some old \<Rightarrow> Inl IntegrityError
      | None \<Rightarrow> Inr (st\<lparr>results := (results st)(row_id r \<mapsto> r)\<rparr>))"

definition results_location :: "string \<Rightarrow> string" where
  "results_location i = ''/pytket-service/api/v1.0/results/'' @ i"

text \<open>
  Lines 115--139. \<open>new_id\<close> is what \<^verbatim>\<open>job.get_id()\<close> returns for the job just enqueued.
\<close>

definition execute_circuit ::
  "service \<Rightarrow> string \<Rightarrow> (string \<times> json) list option \<Rightarrow> response \<times> service" where
  "execute_circuit st new_id rj =
     (case read_fields rj of
        Inl r \<Rightarrow> (r, st)
      | Inr rq \<Rightarrow>
          (let shots = (case rj of None \<Rightarrow> JNum 1024 | Some d \<Rightarrow> get_default d ''shots'' (JNum 1024));
               st1 = st\<lparr>execute_queue := execute_queue st @
                         [\<lparr>job_id = new_id, job_impl_url = impl_url rq,
                           job_qpu_name = qpu_name rq, job_input_params = input_params rq,
                           job_shots = shots, job_provider = provider rq,
                           job_sdk = sdk rq\<rparr>]\<rparr>
           in case add_commit st1 (Result new_id) of
                Inl e \<Rightarrow> (Unhandled e, st1)
              | Inr st2 \<Rightarrow>
                  (Jsonify 202 [(''Location'', results_location new_id)]
                     (JObj [(''Location'', JStr (results_location new_id))]),
                   st2)))"

text \<open>
  Lines 142--150. \<open>json_loads\<close> is \<^verbatim>\<open>json.loads\<close>: \<open>None\<close> where it raises. On a missing
  row \<^verbatim>\<open>result\<close> is \<^verbatim>\<open>None\<close> and \<^verbatim>\<open>result.complete\<close> raises \<^verbatim>\<open>AttributeError\<close>.
\<close>

definition get_result ::
  "(string \<Rightarrow> json option) \<Rightarrow> service \<Rightarrow> string \<Rightarrow> response \<times> service" where
  "get_result json_loads st result_id =
     (case query_get st result_id of
        None \<Rightarrow> (Unhandled AttributeError, st)
      | Some r \<Rightarrow>
          (if complete r then
             (case result r of
                None \<Rightarrow> (Unhandled TypeError, st)
              | Some text \<Rightarrow>
                  (case json_loads text of
                     None \<Rightarrow> (Unhandled JSONDecodeError, st)
                   | Some result_dict \<Rightarrow>
                       (Jsonify 200 []
                          (JObj [(''id'', JStr (row_id r)), (''complete'', JBool (complete r)),
                                 (''result'', result_dict)]),
                        st)))
           else
             (Jsonify 200 []
                (JObj [(''id'', JStr (row_id r)), (''complete'', JBool (complete r))]),
              st)))"

section \<open>Reading a trace\<close>

text \<open>The lowering attempts of a trace: circuit, precompile flag, outcome.\<close>

fun attempts :: "'c event list \<Rightarrow> ('c \<times> bool \<times> 'c outcome) list" where
  "attempts [] = []"
| "attempts (Attempt c f out # es) = (c, f, out) # attempts es"
| "attempts (e # es) = attempts es"

text \<open>An attempt made with precompilation switched on.\<close>

fun precompiled :: "'c \<times> bool \<times> 'c outcome \<Rightarrow> bool" where
  "precompiled (c, f, out) = f"


section \<open>Test doubles\<close>

text \<open>
  Collaborators over three circuits: \<open>0\<close> is the loaded circuit, \<open>1\<close> a partially
  lowered one, \<open>2\<close> a tket circuit that the backend accepts. The only backend is the
  simulator. The lowering pass and the loader's answer are left open.
\<close>

definition stub_env :: "(nat \<Rightarrow> bool \<Rightarrow> nat outcome) \<Rightarrow> nat load_result \<Rightarrow> (nat, unit) env" where
  "stub_env lower loaded =
     \<lparr>prepare_code_from_url = (\<lambda>u p. loaded),
      get_backend = (\<lambda>p q. if q = JStr ''ibmq_qasm_simulator'' then Some () else None),
      is_tk_circuit = (\<lambda>c. c = 2),
      tket_transpile_circuit = (\<lambda>c s b f. lower c f),
      valid_circuit = (\<lambda>b c. c = 2),
      n_qubits = (\<lambda>c. 1),
      depth = (\<lambda>c. 2)\<rparr>"

definition request :: "string \<Rightarrow> string \<Rightarrow> (string \<times> json) list option" where
  "request url qpu =
     Some [(''impl-url'', JStr url), (''qpu-name'', JStr qpu),
           (''provider'', JStr ''ibmq''), (''sdk'', JStr ''qiskit'')]"

text \<open>
  Four lowering passes: one that misses a gate of the loaded circuit until it is
  precompiled and then lowers one step at a time; one that lowers the loaded circuit
  partially and then misses a gate; one that never finds the gate; one that finds the
  backend too small.
\<close>

definition lower_after_precompile :: "nat \<Rightarrow> bool \<Rightarrow> nat outcome" where
  "lower_after_precompile c f = (if c = 0 \<and> \<not> f then UnsupportedGate ''cu1'' else Lowered (Suc c))"

definition lower_partially :: "nat \<Rightarrow> bool \<Rightarrow> nat outcome" where
  "lower_partially c f =
     (if c = 0 then Lowered 1 else if f then Lowered 2 else UnsupportedGate ''cu1'')"


definition lower_too_many :: "nat \<Rightarrow> bool \<Rightarrow> nat outcome" where
  "lower_too_many c f = TooManyQubits"

text \<open>
  Two more: a pass that misses a gate and, once the circuit is precompiled, finds the
  backend too small; and a pass that lowers one step at a time and never raises.
\<close>

definition lower_too_many_precompiled :: "nat \<Rightarrow> bool \<Rightarrow> nat outcome" where
  "lower_too_many_precompiled c f = (if f then TooManyQubits else UnsupportedGate ''cu1'')"

definition lower_stepwise :: "nat \<Rightarrow> bool \<Rightarrow> nat outcome" where
  "lower_stepwise c f = Lowered (Suc c)"

text \<open>The same collaborators with a backend whose validity predicate accepts no circuit.\<close>

definition rejecting_env ::
  "(nat \<Rightarrow> bool \<Rightarrow> nat outcome) \<Rightarrow> nat load_result \<Rightarrow> (nat, unit) env" where
  "rejecting_env lower loaded = (stub_env lower loaded)\<lparr>valid_circuit := (\<lambda>b c. False)\<rparr>"

definition hadamard_url :: string where
  "hadamard_url = ''https://raw.githubusercontent.com/PlanQK/qiskit-service/master/test/data/hadamard.py''"

text \<open>
  The request of \<^verbatim>\<open>test_transpile_hadamard_simulator_file\<close>, which sends the
  implementation inline, with \<^verbatim>\<open>sdk\<close> added; and a request without \<^verbatim>\<open>provider\<close>.
\<close>

definition impl_data_request :: "(string \<times> json) list option" where
  "impl_data_request =
     Some [(''impl-data'', JStr ''ZnJvbSBxaXNraXQgaW1wb3J0IFF1YW50dW1DaXJjdWl0''),
           (''impl-language'', JStr ''Qiskit''), (''qpu-name'', JStr ''ibmq_qasm_simulator''),
           (''provider'', JStr ''ibmq''), (''sdk'', JStr ''qiskit'')]"

definition no_provider_request :: "(string \<times> json) list option" where
  "no_provider_request =
     Some [(''impl-url'', JStr hadamard_url), (''qpu-name'', JStr ''ibmq_qasm_simulator''),
           (''sdk'', JStr ''qiskit'')]"

text \<open>The path segments of a URL, the pieces between its \<^verbatim>\<open>/\<close> characters.\<close>

fun segments :: "string \<Rightarrow> string list" where
  "segments [] = [[]]"
| "segments (c # cs) =
     (if c = CHR ''/'' then [] # segments cs
      else (case segments cs of [] \<Rightarrow> [[c]] | seg # segs \<Rightarrow> (c # seg) # segs))"

definition ends_with_py :: "string \<Rightarrow> bool" where
  "ends_with_py seg = (3 \<le> length seg \<and> drop (length seg - 3) seg = ''.py'')"

text \<open>A client polling the same result \<open>n\<close> times: the responses, and the store afterwards.\<close>

fun polls ::
  "(string \<Rightarrow> json option) \<Rightarrow> service \<Rightarrow> string \<Rightarrow> nat \<Rightarrow> response list \<times> service" where
  "polls json_loads st result_id 0 = ([], st)"
| "polls json_loads st result_id (Suc n) =
     (let (r, st1) = get_result json_loads st result_id;
          (rs, st2) = polls json_loads st1 result_id n
      in (r # rs, st2))"

text \<open>
  The store of \<^verbatim>\<open>test_results.py\<close>: row \<^verbatim>\<open>"0"\<close> incomplete, row \<^verbatim>\<open>"1"\<close> complete; and a
  \<^verbatim>\<open>json.loads\<close> that knows the one payload.
\<close>

definition dummy_results :: service where
  \<open>dummy_results =
     \<lparr>execute_queue = [],
      results = [''0'' \<mapsto> Result ''0'',
                 ''1'' \<mapsto> \<lparr>row_id = ''1'', complete = True,
                            result = Some ''{"text" : "I am complete !"}''\<rparr>]\<rparr>\<close>

definition dummy_loads :: "string \<Rightarrow> json option" where
  \<open>dummy_loads text =
     (if text = ''{"text" : "I am complete !"}''
      then Some (JObj [(''text'', JStr ''I am complete !'')]) else None)\<close>

section \<open>Properties of the convergence loop\<close>

text \<open>
  The lemmas below are about one run of the loop, for any collaborators, any fuel and
  any starting circuit and flag. They are proved by induction on the fuel, which is
  induction on the number of iterations.
\<close>

lemma attempts_append: "attempts (xs @ ys) = attempts xs @ attempts ys"
  by (induction xs rule: attempts.induct) simp_all

lemma loop_head:
  "convergence_loop env s b fuel c f = (x, tr) \<Longrightarrow> attempts tr = (c', f', out) # rest
   \<Longrightarrow> c' = c \<and> f' = f \<and> \<not> is_tk_circuit env c"
  by (cases fuel) (auto split: if_splits outcome.splits prod.splits)

lemma loop_flag_kept:
  "convergence_loop env s b fuel c True = (x, tr) \<Longrightarrow> a \<in> set (attempts tr) \<Longrightarrow> precompiled a"
proof (induction fuel arbitrary: c x tr)
  case 0
  then show ?case by (auto split: if_splits)
next
  case (Suc fuel)
  then show ?case
    by (auto split: if_splits outcome.splits prod.splits)
qed

lemma loop_flag_monotone:
  "convergence_loop env s b fuel c f = (x, tr) \<Longrightarrow>
   attempts tr = pre @ (c', True, out) # post \<Longrightarrow> a \<in> set post \<Longrightarrow> precompiled a"
proof (induction fuel arbitrary: c f x tr pre)
  case 0
  then show ?case by (auto split: if_splits)
next
  case (Suc fuel)
  show ?case
  proof (cases pre)
    case Nil
    with Suc.prems loop_head [OF Suc.prems(1), of c' True out post] have "f" by simp
    with Suc.prems Nil loop_flag_kept [of env s b "Suc fuel" c x tr a] show ?thesis
      by simp
  next
    case (Cons a' pre')
    show ?thesis
    proof (cases "tket_transpile_circuit env c s b f")
      case (Lowered c1)
      obtain x' tr' where rec: "convergence_loop env s b fuel c1 f = (x', tr')"
        by (cases "convergence_loop env s b fuel c1 f")
      with Suc.prems Cons Lowered
      have "attempts tr' = pre' @ (c', True, out) # post"
        by (auto split: if_splits)
      with Suc.IH [OF rec] Suc.prems(3) show ?thesis by blast
    next
      case (UnsupportedGate g)
      obtain x' tr' where rec: "convergence_loop env s b fuel c True = (x', tr')"
        by (cases "convergence_loop env s b fuel c True")
      with Suc.prems Cons UnsupportedGate
      have "attempts tr' = pre' @ (c', True, out) # post"
        by (auto split: if_splits)
      with Suc.IH [OF rec] Suc.prems(3) show ?thesis by blast
    next
      case TooManyQubits
      with Suc.prems Cons show ?thesis by (auto split: if_splits)
    next
      case OtherException
      with Suc.prems Cons show ?thesis by (auto split: if_splits)
    qed
  qed
qed

lemma loop_outcome:
  "convergence_loop env s b fuel c f = (x, tr) \<Longrightarrow> (c', f', out) \<in> set (attempts tr)
   \<Longrightarrow> out = tket_transpile_circuit env c' s b f'"
proof (induction fuel arbitrary: c f x tr)
  case 0
  then show ?case by (auto split: if_splits)
next
  case (Suc fuel)
  then show ?case
    by (auto split: if_splits outcome.splits prod.splits)
qed


lemma loop_too_many_qubits:
  "convergence_loop env s b fuel c f = (x, tr) \<Longrightarrow>
   attempts tr = pre @ (c', f', TooManyQubits) # post \<Longrightarrow>
   post = [] \<and> x = Return (Jsonify 200 [] (JObj [(''error'', JStr ''too many qubits required'')]))"
proof (induction fuel arbitrary: c f x tr pre)
  case 0
  then show ?case by (auto split: if_splits)
next
  case (Suc fuel)
  then show ?case
    by (cases pre) (auto split: if_splits outcome.splits prod.splits)
qed





lemma loop_consecutive:
  "convergence_loop env s b fuel c f = (x, tr) \<Longrightarrow>
   attempts tr = pre @ (c0, f0, o0) # (c1, f1, o1) # post \<Longrightarrow>
   (o0 = Lowered c1 \<and> f1 = f0) \<or> ((\<exists>g. o0 = UnsupportedGate g) \<and> c1 = c0 \<and> \<not> f0 \<and> f1)"
proof (induction fuel arbitrary: c f x tr pre)
  case 0
  then show ?case by (auto split: if_splits)
next
  case (Suc fuel)
  show ?case
  proof (cases pre)
    case Nil
    show ?thesis
    proof (cases "tket_transpile_circuit env c s b f")
      case (Lowered c')
      obtain x' tr' where rec: "convergence_loop env s b fuel c' f = (x', tr')"
        by (cases "convergence_loop env s b fuel c' f")
      with Suc.prems Nil Lowered have "attempts tr' = (c1, f1, o1) # post" "o0 = Lowered c'" "f0 = f"
        by (auto split: if_splits)
      with loop_head [OF rec] show ?thesis by auto
    next
      case (UnsupportedGate g)
      obtain x' tr' where rec: "convergence_loop env s b fuel c True = (x', tr')"
        by (cases "convergence_loop env s b fuel c True")
      with Suc.prems Nil UnsupportedGate
      have "attempts tr' = (c1, f1, o1) # post" "o0 = UnsupportedGate g" "f0 = f" "\<not> f" "c0 = c"
        by (auto split: if_splits)
      with loop_head [OF rec] show ?thesis by auto
    next
      case TooManyQubits
      with Suc.prems Nil show ?thesis by (auto split: if_splits)
    next
      case OtherException
      with Suc.prems Nil show ?thesis by (auto split: if_splits)
    qed
  next
    case (Cons a pre')
    show ?thesis
    proof (cases "tket_transpile_circuit env c s b f")
      case (Lowered c')
      obtain x' tr' where rec: "convergence_loop env s b fuel c' f = (x', tr')"
        by (cases "convergence_loop env s b fuel c' f")
      with Suc.prems Cons Lowered
      have "attempts tr' = pre' @ (c0, f0, o0) # (c1, f1, o1) # post"
        by (auto split: if_splits)
      with Suc.IH [OF rec] show ?thesis by blast
    next
      case (UnsupportedGate g)
      obtain x' tr' where rec: "convergence_loop env s b fuel c True = (x', tr')"
        by (cases "convergence_loop env s b fuel c True")
      with Suc.prems Cons UnsupportedGate
      have "attempts tr' = pre' @ (c0, f0, o0) # (c1, f1, o1) # post"
        by (auto split: if_splits)
      with Suc.IH [OF rec] show ?thesis by blast
    next
      case TooManyQubits
      with Suc.prems Cons show ?thesis by (auto split: if_splits)
    next
      case OtherException
      with Suc.prems Cons show ?thesis by (auto split: if_splits)
    qed
  qed
qed

lemma loop_events:
  "convergence_loop env s b fuel c f = (x, tr) \<Longrightarrow> ValidCircuit c' v \<notin> set tr"
proof (induction fuel arbitrary: c f x tr)
  case 0
  then show ?case by (auto split: if_splits)
next
  case (Suc fuel)
  then show ?case
    by (auto split: if_splits outcome.splits prod.splits)
qed

lemma loop_return:
  "convergence_loop env s b fuel c f = (Return r, tr) \<Longrightarrow>
   r = Abort 500 \<or> r = Jsonify 200 [] (JObj [(''error'', JStr ''too many qubits required'')])"
proof (induction fuel arbitrary: c f tr)
  case 0
  then show ?case by (auto split: if_splits)
next
  case (Suc fuel)
  then show ?case
    by (auto split: if_splits outcome.splits prod.splits)
qed

lemma after_loop_attempts: "attempts (snd (after_loop env b x)) = []"
  by (cases x) (simp_all add: after_loop_def report_def)

lemma after_loop_valid:
  "ValidCircuit c v \<in> set (snd (after_loop env b x)) \<Longrightarrow>
   (x = ConditionFalse c \<or> x = Break c) \<and> v = valid_circuit env b c"
  by (cases x) (auto simp: after_loop_def report_def split: if_splits)

lemma after_loop_not_400:
  assumes "convergence_loop env s b fuel c f = (x, tr)"
  shows "status_of (fst (after_loop env b x)) \<noteq> Some 400"
proof (cases x)
  case (Return r)
  with loop_return [of env s b fuel c f r tr] assms show ?thesis
    by (auto simp: after_loop_def)
qed (simp_all add: after_loop_def report_def)

section \<open>Properties of the handlers\<close>

text \<open>
  A transpile request either ends before the loop (a rejected body, a missing field, no
  short name, no circuit, no backend), with a response and without any lowering attempt
  or final check, or it runs the loop on the loaded circuit.
\<close>

lemma transpile_run:
  obtains (early) r where "fst (transpile_circuit env fuel rj) = Some r"
      "attempts (snd (transpile_circuit env fuel rj)) = []"
      "\<And>c v. ValidCircuit c v \<notin> set (snd (transpile_circuit env fuel rj))"
      "''depth'' \<notin> set (body_keys r)"
      "status_code r = 400 \<Longrightarrow> read_fields rj = Inl (Abort 400)"
  | (loop) rq c0 b x tr where "read_fields rj = Inr rq"
      "prepare_code_from_url env (impl_url rq) (input_params rq) = Loaded c0"
      "get_backend env (provider rq) (qpu_name rq) = Some b"
      "convergence_loop env (sdk rq) b fuel c0 False = (x, tr)"
      "transpile_circuit env fuel rj =
         (fst (after_loop env b x),
          SetupCredentials (sdk rq) (input_params rq) # PrepareCode (impl_url rq) (input_params rq)
          # GetBackend (provider rq) (qpu_name rq) # tr @ snd (after_loop env b x))"
proof (cases "read_fields rj")
  case (Inl r)
  then have "''depth'' \<notin> set (body_keys r)" "status_code r = 400 \<Longrightarrow> r = Abort 400"
    by (auto simp: read_fields_def split: if_splits option.splits sum.splits)
  with Inl show ?thesis
    by (intro early [of r]) (simp_all add: transpile_circuit_def)
next
  case (Inr rq)
  show ?thesis
  proof (cases "impl_url rq")
    case (JStr u)
    show ?thesis
    proof (cases "re_match_file u")
      case None
      with Inr JStr show ?thesis
        by (intro early [of "Unhandled AttributeError"]) (simp_all add: transpile_circuit_def)
    next
      case (Some name)
      show ?thesis
      proof (cases "prepare_code_from_url env (impl_url rq) (input_params rq)")
        case (LoadRaised msg)
        with Inr JStr Some show ?thesis
          by (intro early [of "Jsonify 200 [] (error_body msg)"])
             (simp_all add: transpile_circuit_def error_body_def)
      next
        case LoadFalsy
        with Inr JStr Some show ?thesis
          by (intro early [of "Jsonify 200 [] (error_body str_NotFound)"])
             (simp_all add: transpile_circuit_def error_body_def)
      next
        case (Loaded c0)
        show ?thesis
        proof (cases "get_backend env (provider rq) (qpu_name rq)")
          case None
          with Inr JStr Some Loaded show ?thesis
            by (intro early [of "Abort 404"])
               (simp_all add: transpile_circuit_def compile_loaded_def)
        next
          case b: (Some b)
          obtain x tr where run: "convergence_loop env (sdk rq) b fuel c0 False = (x, tr)"
            by (cases "convergence_loop env (sdk rq) b fuel c0 False")
          with Inr JStr Some Loaded b show ?thesis
            by (intro loop [of rq c0 b x tr])
               (simp_all add: transpile_circuit_def compile_loaded_def split_beta)
        qed
      qed
    qed
  qed (use Inr in \<open>(intro early [of "Unhandled TypeError"], simp_all add: transpile_circuit_def)+\<close>)
qed

lemma read_fields_Inr:
  assumes "map_of d ''impl-url'' = Some u" "map_of d ''qpu-name'' = Some q"
    "map_of d ''provider'' = Some p" "map_of d ''sdk'' = Some s"
  shows "read_fields (Some d) =
     Inr \<lparr>impl_url = u, provider = p, sdk = s, qpu_name = q,
          input_params = get_default d ''input-params'' (JStr [])\<rparr>"
  using assms by (auto simp: read_fields_def bad_request_def has_key_def subscript_def)

lemma read_fields_400:
  "read_fields rj = Inl (Abort 400) \<longleftrightarrow> bad_request rj"
  by (auto simp: read_fields_def bad_request_def has_key_def subscript_def
      split: option.splits sum.splits)

text \<open>
  The status 400 comes from the guard of line 36 and from nowhere else.
\<close>

lemma status_400_guard:
  "((rj = None \<or> rj = Some [] \<or>
     (\<exists>d'. rj = Some d' \<and> (map_of d' ''impl-url'' = None \<or> map_of d' ''qpu-name'' = None))) \<longrightarrow>
      transpile_circuit env fuel rj = (Some (Abort 400), [])) \<and>
   (rj = Some d \<and> map_of d ''impl-url'' \<noteq> None \<and> map_of d ''qpu-name'' \<noteq> None \<and>
    map_of d ''provider'' \<noteq> None \<and> map_of d ''sdk'' \<noteq> None \<longrightarrow>
      status_of (fst (transpile_circuit env fuel rj)) \<noteq> Some 400)"
proof (intro conjI impI)
  assume "rj = None \<or> rj = Some [] \<or>
     (\<exists>d'. rj = Some d' \<and> (map_of d' ''impl-url'' = None \<or> map_of d' ''qpu-name'' = None))"
  then have "bad_request rj"
    by (auto simp: bad_request_def has_key_def)
  then have "read_fields rj = Inl (Abort 400)" by (simp add: read_fields_400)
  then show "transpile_circuit env fuel rj = (Some (Abort 400), [])"
    by (simp add: transpile_circuit_def)
next
  assume ok: "rj = Some d \<and> map_of d ''impl-url'' \<noteq> None \<and> map_of d ''qpu-name'' \<noteq> None \<and>
    map_of d ''provider'' \<noteq> None \<and> map_of d ''sdk'' \<noteq> None"
  then obtain u q p s where "map_of d ''impl-url'' = Some u" "map_of d ''qpu-name'' = Some q"
    "map_of d ''provider'' = Some p" "map_of d ''sdk'' = Some s"
    by auto
  from read_fields_Inr [OF this] ok obtain rq where rq: "read_fields rj = Inr rq" by simp
  show "status_of (fst (transpile_circuit env fuel rj)) \<noteq> Some 400"
  proof (cases rule: transpile_run [of env fuel rj])
    case (early r)
    with rq show ?thesis by auto
  next
    case (loop rq' c0 b x tr)
    with after_loop_not_400 [OF loop(4)] show ?thesis by simp
  qed
qed

lemma greedy_Some: "greedy f n = Some r \<Longrightarrow> \<exists>k\<le>n. f k = Some r"
  by (induction n) (auto split: option.splits intro: le_SucI)

lemma match_file_Some:
  assumes "match_file t = Some r"
  shows "\<exists>b c. t = b @ ''.py'' @ c"
proof -
  from assms obtain k where k: "take 3 (drop k t) = ''.py''"
    unfolding match_file_def by (auto dest!: greedy_Some split: if_splits)
  have "t = take k t @ take 3 (drop k t) @ drop 3 (drop k t)"
    by (simp only: append_take_drop_id)
  with k show ?thesis by metis
qed

lemma re_match_file_Some:
  assumes "re_match_file u = Some r"
  shows "\<exists>a b c. u = a @ ''/'' @ b @ ''.py'' @ c"
proof -
  from assms obtain i where i: "take 1 (drop i u) = ''/''"
    and m: "match_file (drop (Suc i) u) = Some r"
    unfolding re_match_file_def by (auto dest!: greedy_Some split: if_splits)
  from match_file_Some [OF m] obtain b c where bc: "drop (Suc i) u = b @ ''.py'' @ c" by blast
  have "u = take i u @ take 1 (drop i u) @ drop 1 (drop i u)"
    by (simp only: append_take_drop_id)
  with i bc have "u = take i u @ ''/'' @ b @ ''.py'' @ c" by simp
  then show ?thesis by blast
qed

lemma polls_same:
  "polls json_loads st result_id n = (replicate n (fst (get_result json_loads st result_id)), st)"
proof (induction n)
  case 0
  show ?case by simp
next
  case (Suc n)
  have "snd (get_result json_loads st result_id) = st"
    by (simp add: get_result_def split: option.splits)
  then obtain r where "get_result json_loads st result_id = (r, st)"
    by (cases "get_result json_loads st result_id") simp
  with Suc show ?case by simp
qed

text \<open>
  The final check in a trace, and what the handler does when the loop is left.
\<close>

lemma final_check_events:
  "(ValidCircuit c False \<in> set (snd (transpile_circuit env fuel rj)) \<longrightarrow>
      fst (transpile_circuit env fuel rj) = Some (Abort 500)) \<and>
   (fst (transpile_circuit env fuel rj) = Some r \<and> ''depth'' \<in> set (body_keys r) \<longrightarrow>
      (\<exists>c'. last (snd (transpile_circuit env fuel rj)) = ValidCircuit c' True)) \<and>
   (ValidCircuit c v \<in> set (snd (transpile_circuit env fuel rj)) \<longrightarrow>
      (\<exists>rq b. read_fields rj = Inr rq \<and> get_backend env (provider rq) (qpu_name rq) = Some b \<and>
         v = valid_circuit env b c))"
proof (cases rule: transpile_run [of env fuel rj])
  case (early r')
  then show ?thesis by auto
next
  case (loop rq c0 b x tr)
  have mem: "ValidCircuit c w \<in> set (snd (transpile_circuit env fuel rj)) \<longleftrightarrow>
             ValidCircuit c w \<in> set (snd (after_loop env b x))" for w
    using loop_events [OF loop(4)] by (auto simp: loop(5))
  have failed: "fst (transpile_circuit env fuel rj) = Some (Abort 500)"
    if "ValidCircuit c False \<in> set (snd (transpile_circuit env fuel rj))"
  proof -
    from that mem have "ValidCircuit c False \<in> set (snd (after_loop env b x))" by simp
    from after_loop_valid [OF this] show ?thesis
      by (auto simp: loop(5) after_loop_def report_def)
  qed
  have metrics: "\<exists>c'. last (snd (transpile_circuit env fuel rj)) = ValidCircuit c' True"
    if r: "fst (transpile_circuit env fuel rj) = Some r" and k: "''depth'' \<in> set (body_keys r)"
  proof (cases x)
    case (ConditionFalse c')
    with r k show ?thesis
      by (auto simp: loop(5) after_loop_def report_def split: if_splits)
  next
    case (Break c')
    with r k show ?thesis
      by (auto simp: loop(5) after_loop_def report_def split: if_splits)
  next
    case (Return r')
    with loop_return [of env "sdk rq" b fuel c0 False r' tr] loop(4) r k show ?thesis
      by (auto simp: loop(5) after_loop_def)
  next
    case StillRunning
    with r show ?thesis by (simp add: loop(5) after_loop_def)
  qed
  have origin: "\<exists>rq b. read_fields rj = Inr rq \<and>
      get_backend env (provider rq) (qpu_name rq) = Some b \<and> v = valid_circuit env b c"
    if "ValidCircuit c v \<in> set (snd (transpile_circuit env fuel rj))"
  proof -
    from that mem have "ValidCircuit c v \<in> set (snd (after_loop env b x))" by simp
    from after_loop_valid [OF this] loop(1,3) show ?thesis by blast
  qed
  from failed metrics origin show ?thesis by blast
qed

lemma loop_exit_checked:
  assumes "read_fields rj = Inr rq" and "impl_url rq = JStr u" and "re_match_file u = Some name"
    and "prepare_code_from_url env (impl_url rq) (input_params rq) = Loaded c0"
    and "get_backend env (provider rq) (qpu_name rq) = Some b"
    and "convergence_loop env (sdk rq) b fuel c0 False = (x, tr)"
    and "x = ConditionFalse c1 \<or> x = Break c1"
  shows "transpile_circuit env fuel rj =
     ((if valid_circuit env b c1
       then Some (Jsonify 200 [] (JObj [(''depth'', JNum (depth env c1)),
                                        (''width'', JNum (n_qubits env c1))]))
       else Some (Abort 500)),
      SetupCredentials (sdk rq) (input_params rq) # PrepareCode (impl_url rq) (input_params rq)
      # GetBackend (provider rq) (qpu_name rq) # tr @ [ValidCircuit c1 (valid_circuit env b c1)])"
  using assms
  by (auto simp: transpile_circuit_def compile_loaded_def after_loop_def report_def)

text \<open>
  A request to the execute route that carries \<^verbatim>\<open>impl-url\<close>, \<^verbatim>\<open>qpu-name\<close>, \<^verbatim>\<open>provider\<close>
  and \<^verbatim>\<open>sdk\<close>, with a new job id: status 202 with the results location of that id in
  the \<^verbatim>\<open>Location\<close> header and in the body, an incomplete row stored under the id, and a
  poll of the id in the resulting store answers \<^verbatim>\<open>{id, complete: false}\<close> without a
  \<^verbatim>\<open>result\<close> field.
\<close>

lemma execute_then_poll:
  assumes "map_of d ''impl-url'' = Some u" and "map_of d ''qpu-name'' = Some q"
    and "map_of d ''provider'' = Some p" and "map_of d ''sdk'' = Some s"
    and "results st new_id = None"
  shows "fst (execute_circuit st new_id (Some d)) =
           Jsonify 202 [(''Location'', ''/pytket-service/api/v1.0/results/'' @ new_id)]
             (JObj [(''Location'', JStr (''/pytket-service/api/v1.0/results/'' @ new_id))]) \<and>
         results (snd (execute_circuit st new_id (Some d))) new_id =
           Some \<lparr>row_id = new_id, complete = False, result = None\<rparr> \<and>
         get_result json_loads (snd (execute_circuit st new_id (Some d))) new_id =
           (Jsonify 200 [] (JObj [(''id'', JStr new_id), (''complete'', JBool False)]),
            snd (execute_circuit st new_id (Some d)))"
  using assms(5)
  by (simp add: execute_circuit_def read_fields_Inr [OF assms(1-4)] add_commit_def Result_def
      results_location_def get_result_def query_get_def Let_def)

lemma execute_then_poll_example:
  "results dummy_results ''7c9e6679-7425-40de-944b-e07fc1f90ae7'' = None \<and>
   fst (execute_circuit dummy_results ''7c9e6679-7425-40de-944b-e07fc1f90ae7''
         (request hadamard_url ''ibmq_qasm_simulator'')) =
     Jsonify 202
       [(''Location'', ''/pytket-service/api/v1.0/results/7c9e6679-7425-40de-944b-e07fc1f90ae7'')]
       (JObj [(''Location'',
               JStr ''/pytket-service/api/v1.0/results/7c9e6679-7425-40de-944b-e07fc1f90ae7'')]) \<and>
   fst (get_result dummy_loads
         (snd (execute_circuit dummy_results ''7c9e6679-7425-40de-944b-e07fc1f90ae7''
                (request hadamard_url ''ibmq_qasm_simulator'')))
         ''7c9e6679-7425-40de-944b-e07fc1f90ae7'') =
     Jsonify 200 []
       (JObj [(''id'', JStr ''7c9e6679-7425-40de-944b-e07fc1f90ae7''), (''complete'', JBool False)])"
proof -
  have fresh: "results dummy_results ''7c9e6679-7425-40de-944b-e07fc1f90ae7'' = None"
    by (simp add: dummy_results_def)
  from execute_then_poll [of
      "[(''impl-url'', JStr hadamard_url), (''qpu-name'', JStr ''ibmq_qasm_simulator''),
        (''provider'', JStr ''ibmq''), (''sdk'', JStr ''qiskit'')]"
      "JStr hadamard_url" "JStr ''ibmq_qasm_simulator''" "JStr ''ibmq''" "JStr ''qiskit''"
      dummy_results "''7c9e6679-7425-40de-944b-e07fc1f90ae7''" dummy_loads] fresh
  show ?thesis by (simp add: request_def)
qed

subsection \<open>Runs of the test doubles\<close>

lemma fields_hadamard:
  "read_fields (request hadamard_url ''ibmq_qasm_simulator'') =
     Inr \<lparr>impl_url = JStr hadamard_url, provider = JStr ''ibmq'', sdk = JStr ''qiskit'',
          qpu_name = JStr ''ibmq_qasm_simulator'', input_params = JStr []\<rparr>"
  by code_simp

lemma fields_nowhere:
  "read_fields (request hadamard_url ''ibmq_nowhere'') =
     Inr \<lparr>impl_url = JStr hadamard_url, provider = JStr ''ibmq'', sdk = JStr ''qiskit'',
          qpu_name = JStr ''ibmq_nowhere'', input_params = JStr []\<rparr>"
  by code_simp

lemma fields_bare:
  "read_fields (request ''hadamard.py'' ''ibmq_qasm_simulator'') =
     Inr \<lparr>impl_url = JStr ''hadamard.py'', provider = JStr ''ibmq'', sdk = JStr ''qiskit'',
          qpu_name = JStr ''ibmq_qasm_simulator'', input_params = JStr []\<rparr>"
  by code_simp

lemma match_hadamard: "re_match_file hadamard_url = Some ''hadamard.py''"
  by code_simp


lemma run_partially:
  "transpile_circuit (stub_env lower_partially (Loaded 0)) 3
     (request hadamard_url ''ibmq_qasm_simulator'') =
   (Some (Jsonify 200 [] (JObj [(''depth'', JNum 2), (''width'', JNum 1)])),
    [SetupCredentials (JStr ''qiskit'') (JStr []),
     PrepareCode (JStr hadamard_url) (JStr []),
     GetBackend (JStr ''ibmq'') (JStr ''ibmq_qasm_simulator''),
     Attempt 0 False (Lowered 1),
     Attempt 1 False (UnsupportedGate ''cu1''),
     Attempt 1 True (Lowered 2),
     ValidCircuit 2 True])"
  by code_simp


lemma run_too_many:
  "transpile_circuit (stub_env lower_too_many (Loaded 0)) 3
     (request hadamard_url ''ibmq_qasm_simulator'') =
   (Some (Jsonify 200 [] (JObj [(''error'', JStr ''too many qubits required'')])),
    [SetupCredentials (JStr ''qiskit'') (JStr []),
     PrepareCode (JStr hadamard_url) (JStr []),
     GetBackend (JStr ''ibmq'') (JStr ''ibmq_qasm_simulator''),
     Attempt 0 False TooManyQubits])"
  by code_simp

lemma run_no_body:
  "transpile_circuit (stub_env lower_too_many (Loaded 0)) 3 None = (Some (Abort 400), [])"
  by code_simp

lemma run_load_raised:
  "transpile_circuit (stub_env lower_too_many (LoadRaised ''HTTP Error 404: Not Found'')) 3
     (request hadamard_url ''ibmq_qasm_simulator'') =
   (Some (Jsonify 200 [] (JObj [(''error'', JStr ''HTTP Error 404: Not Found'')])),
    [SetupCredentials (JStr ''qiskit'') (JStr []),
     PrepareCode (JStr hadamard_url) (JStr [])])"
  by code_simp

lemma run_no_backend:
  "transpile_circuit (stub_env lower_too_many (Loaded 0)) 3
     (request hadamard_url ''ibmq_nowhere'') =
   (Some (Abort 404),
    [SetupCredentials (JStr ''qiskit'') (JStr []),
     PrepareCode (JStr hadamard_url) (JStr []),
     GetBackend (JStr ''ibmq'') (JStr ''ibmq_nowhere'')])"
  by code_simp

lemma run_too_many_precompiled:
  "transpile_circuit (stub_env lower_too_many_precompiled (Loaded 0)) 3
     (request hadamard_url ''ibmq_qasm_simulator'') =
   (Some (Jsonify 200 [] (JObj [(''error'', JStr ''too many qubits required'')])),
    [SetupCredentials (JStr ''qiskit'') (JStr []),
     PrepareCode (JStr hadamard_url) (JStr []),
     GetBackend (JStr ''ibmq'') (JStr ''ibmq_qasm_simulator''),
     Attempt 0 False (UnsupportedGate ''cu1''),
     Attempt 0 True TooManyQubits])"
  by code_simp

lemma run_rejected:
  "transpile_circuit (rejecting_env lower_stepwise (Loaded 0)) 3
     (request hadamard_url ''ibmq_qasm_simulator'') =
   (Some (Abort 500),
    [SetupCredentials (JStr ''qiskit'') (JStr []),
     PrepareCode (JStr hadamard_url) (JStr []),
     GetBackend (JStr ''ibmq'') (JStr ''ibmq_qasm_simulator''),
     Attempt 0 False (Lowered 1),
     Attempt 1 False (Lowered 2),
     ValidCircuit 2 False])"
  by code_simp

lemma loop_stepwise:
  "convergence_loop (rejecting_env lower_stepwise (Loaded 0)) (JStr ''qiskit'') () 3 0 False =
     (ConditionFalse 2, [Attempt 0 False (Lowered 1), Attempt 1 False (Lowered 2)])"
  by code_simp

section \<open>The claims\<close>

subsection \<open>C1: escalation to precompilation\<close>




subsection \<open>C2: the circuit handed to the escalated attempt\<close>

text \<open>
  C2, as the code has it. The attempt after an escalation receives the circuit that the
  failed attempt received, the value of the variable \<^verbatim>\<open>circuit\<close> at that moment: the
  loaded circuit when the failure was the first attempt, otherwise the output of the
  lowering pass that succeeded just before.
\<close>

theorem escalated_attempt_circuit:
  assumes "read_fields rj = Inr rq"
    and "attempts (snd (transpile_circuit env fuel rj)) =
           pre @ (c, False, UnsupportedGate g) # (c', f', out) # post"
  shows "c' = c \<and> f' \<and>
     (pre = [] \<longrightarrow> prepare_code_from_url env (impl_url rq) (input_params rq) = Loaded c) \<and>
     (pre \<noteq> [] \<longrightarrow> (\<exists>c0. last pre = (c0, False, Lowered c)))"
proof (cases rule: transpile_run [of env fuel rj])
  case (early r)
  with assms show ?thesis by simp
next
  case (loop rq' c0 b x tr)
  with assms have rq: "rq' = rq" by simp
  have att: "attempts tr = pre @ (c, False, UnsupportedGate g) # (c', f', out) # post"
    using assms(2) by (simp add: loop(5) attempts_append after_loop_attempts)
  from loop_consecutive [OF loop(4) att] have next_att: "c' = c \<and> f'" by auto
  have first: "prepare_code_from_url env (impl_url rq) (input_params rq) = Loaded c" if "pre = []"
    using loop_head [OF loop(4), of c False "UnsupportedGate g"] att that loop(2) rq by simp
  have later: "\<exists>c0. last pre = (c0, False, Lowered c)" if "pre \<noteq> []"
  proof -
    from that obtain pre' a where pre: "pre = pre' @ [a]"
      by (metis append_butlast_last_id)
    obtain c0 f0 o0 where a: "a = (c0, f0, o0)" by (cases a)
    from att pre a
    have "attempts tr = pre' @ (c0, f0, o0) # (c, False, UnsupportedGate g) # (c', f', out) # post"
      by simp
    from loop_consecutive [OF loop(4) this] have "o0 = Lowered c" "f0 = False" by auto
    with pre a show ?thesis by simp
  qed
  from next_att first later show ?thesis by blast
qed

theorem escalated_attempt_circuit_witness:
  "read_fields (request hadamard_url ''ibmq_qasm_simulator'') =
     Inr \<lparr>impl_url = JStr hadamard_url, provider = JStr ''ibmq'', sdk = JStr ''qiskit'',
          qpu_name = JStr ''ibmq_qasm_simulator'', input_params = JStr []\<rparr> \<and>
   attempts (snd (transpile_circuit (stub_env lower_partially (Loaded 0)) 3
      (request hadamard_url ''ibmq_qasm_simulator''))) =
     [(0, False, Lowered 1)] @ (1, False, UnsupportedGate ''cu1'') # (1, True, Lowered 2) # [] \<and>
   last [(0::nat, False, Lowered 1 :: nat outcome)] = (0, False, Lowered 1)"
  using escalated_attempt_circuit [of "request hadamard_url ''ibmq_qasm_simulator''"
      "\<lparr>impl_url = JStr hadamard_url, provider = JStr ''ibmq'', sdk = JStr ''qiskit'',
        qpu_name = JStr ''ibmq_qasm_simulator'', input_params = JStr []\<rparr>"
      "stub_env lower_partially (Loaded 0)" 3 "[(0, False, Lowered 1)]" 1 "''cu1''" 1 True
      "Lowered 2" "[]"]
  by (simp add: run_partially fields_hadamard)

text \<open>
  C2 as stated fails: after a partial lowering of circuit \<open>0\<close> to circuit \<open>1\<close> the
  escalated attempt receives \<open>1\<close>, not the loaded circuit \<open>0\<close>.
\<close>

theorem escalated_from_lowered:
  "prepare_code_from_url (stub_env lower_partially (Loaded 0)) (JStr hadamard_url) (JStr []) =
     Loaded 0 \<and>
   attempts (snd (transpile_circuit (stub_env lower_partially (Loaded 0)) 3
      (request hadamard_url ''ibmq_qasm_simulator''))) =
     [(0, False, Lowered 1), (1, False, UnsupportedGate ''cu1''), (1, True, Lowered 2)]"
  by (simp add: run_partially) (simp add: stub_env_def)

subsection \<open>C3: too many qubits\<close>

text \<open>
  C3, as the code has it. When an attempt raises the too-many-qubits failure, no attempt
  follows it, precompiled or not, the final check is not run, and the response is status
  200 with the body \<^verbatim>\<open>{"error": "too many qubits required"}\<close>, which has no metrics. When
  the failing attempt ran without precompilation, no attempt of the request was
  precompiled; the failing attempt may itself be the precompiled one.
\<close>

theorem too_many_qubits_terminal:
  assumes "attempts (snd (transpile_circuit env fuel rj)) = pre @ (c, f, TooManyQubits) # post"
  shows "post = [] \<and>
     fst (transpile_circuit env fuel rj) =
       Some (Jsonify 200 [] (JObj [(''error'', JStr ''too many qubits required'')])) \<and>
     (\<forall>c' v. ValidCircuit c' v \<notin> set (snd (transpile_circuit env fuel rj))) \<and>
     (\<not> f \<longrightarrow> filter precompiled (attempts (snd (transpile_circuit env fuel rj))) = [])"
proof (cases rule: transpile_run [of env fuel rj])
  case (early r)
  with assms show ?thesis by simp
next
  case (loop rq c0 b x tr)
  have att: "attempts tr = pre @ (c, f, TooManyQubits) # post"
    using assms by (simp add: loop(5) attempts_append after_loop_attempts)
  from loop_too_many_qubits [OF loop(4) att]
  have post: "post = []"
    and x: "x = Return (Jsonify 200 [] (JObj [(''error'', JStr ''too many qubits required'')]))"
    by simp_all
  have none: "filter precompiled (attempts tr) = []" if "\<not> f"
  proof -
    have "\<not> precompiled a" if a: "a \<in> set pre" for a
    proof
      assume pa: "precompiled a"
      from a obtain p1 p2 where "pre = p1 @ a # p2" by (auto simp: in_set_conv_decomp)
      moreover obtain ca fa oa where "a = (ca, fa, oa)" by (cases a)
      ultimately have "attempts tr = p1 @ (ca, True, oa) # (p2 @ (c, f, TooManyQubits) # post)"
        using att pa by simp
      from loop_flag_monotone [OF loop(4) this, of "(c, f, TooManyQubits)"] \<open>\<not> f\<close>
      show False by simp
    qed
    with att post \<open>\<not> f\<close> show ?thesis by (simp add: filter_empty_conv)
  qed
  from post x none loop_events [OF loop(4)] show ?thesis
    by (simp add: loop(5) after_loop_def attempts_append)
qed

text \<open>
  The theorem on a pass that fails at once, and on a pass that fails once precompiled.
\<close>

theorem too_many_qubits_terminal_witness:
  "attempts (snd (transpile_circuit (stub_env lower_too_many (Loaded 0)) 3
      (request hadamard_url ''ibmq_qasm_simulator''))) = [] @ (0, False, TooManyQubits) # [] \<and>
   fst (transpile_circuit (stub_env lower_too_many (Loaded 0)) 3
      (request hadamard_url ''ibmq_qasm_simulator'')) =
     Some (Jsonify 200 [] (JObj [(''error'', JStr ''too many qubits required'')])) \<and>
   filter precompiled (attempts (snd (transpile_circuit (stub_env lower_too_many (Loaded 0)) 3
      (request hadamard_url ''ibmq_qasm_simulator'')))) = [] \<and>
   attempts (snd (transpile_circuit (stub_env lower_too_many_precompiled (Loaded 0)) 3
      (request hadamard_url ''ibmq_qasm_simulator''))) =
     [(0, False, UnsupportedGate ''cu1'')] @ (0, True, TooManyQubits) # [] \<and>
   fst (transpile_circuit (stub_env lower_too_many_precompiled (Loaded 0)) 3
      (request hadamard_url ''ibmq_qasm_simulator'')) =
     Some (Jsonify 200 [] (JObj [(''error'', JStr ''too many qubits required'')]))"
  using too_many_qubits_terminal [of "stub_env lower_too_many (Loaded 0)" 3
      "request hadamard_url ''ibmq_qasm_simulator''" "[]" 0 False "[]"]
    too_many_qubits_terminal [of "stub_env lower_too_many_precompiled (Loaded 0)" 3
      "request hadamard_url ''ibmq_qasm_simulator''" "[(0, False, UnsupportedGate ''cu1'')]"
      0 True "[]"]
  by (simp add: run_too_many run_too_many_precompiled)

text \<open>
  C3 as stated fails: when the first attempt misses a gate, the loop escalates, and the
  precompiled attempt is the one that finds the backend too small. The request ends
  with the error response, and precompilation was attempted.
\<close>

theorem too_many_after_precompile:
  "transpile_circuit (stub_env lower_too_many_precompiled (Loaded 0)) 3
     (request hadamard_url ''ibmq_qasm_simulator'') =
   (Some (Jsonify 200 [] (JObj [(''error'', JStr ''too many qubits required'')])),
    [SetupCredentials (JStr ''qiskit'') (JStr []),
     PrepareCode (JStr hadamard_url) (JStr []),
     GetBackend (JStr ''ibmq'') (JStr ''ibmq_qasm_simulator''),
     Attempt 0 False (UnsupportedGate ''cu1''),
     Attempt 0 True TooManyQubits]) \<and>
   filter precompiled (attempts (snd (transpile_circuit
     (stub_env lower_too_many_precompiled (Loaded 0)) 3
     (request hadamard_url ''ibmq_qasm_simulator'')))) = [(0, True, TooManyQubits)]"
  by (simp add: run_too_many_precompiled)

subsection \<open>C4: the final check\<close>

text \<open>
  C4. When the loop is left, by its condition turning false or by \<^verbatim>\<open>break\<close>, the handler
  asks the resolved backend whether the circuit the loop ended with is valid, as the last
  call of the request: where the answer is false the response is status 500, without a
  body, also when no attempt raised an exception; where it is true the response carries
  depth and width of that circuit. A final check that answers false always makes the
  response status 500; a response that carries \<^verbatim>\<open>depth\<close> comes right after a final check
  that answered true; and every final check in a trace is the validity predicate of the
  resolved backend.
\<close>

theorem final_check_guard:
  "(ValidCircuit c False \<in> set (snd (transpile_circuit env fuel rj)) \<longrightarrow>
      fst (transpile_circuit env fuel rj) = Some (Abort 500)) \<and>
   (fst (transpile_circuit env fuel rj) = Some r \<and> ''depth'' \<in> set (body_keys r) \<longrightarrow>
      (\<exists>c'. last (snd (transpile_circuit env fuel rj)) = ValidCircuit c' True)) \<and>
   (ValidCircuit c v \<in> set (snd (transpile_circuit env fuel rj)) \<longrightarrow>
      (\<exists>rq b. read_fields rj = Inr rq \<and> get_backend env (provider rq) (qpu_name rq) = Some b \<and>
         v = valid_circuit env b c)) \<and>
   (read_fields rj = Inr rq0 \<and> impl_url rq0 = JStr u \<and> re_match_file u = Some name \<and>
    prepare_code_from_url env (impl_url rq0) (input_params rq0) = Loaded c0 \<and>
    get_backend env (provider rq0) (qpu_name rq0) = Some b0 \<and>
    convergence_loop env (sdk rq0) b0 fuel c0 False = (x, tr) \<and>
    (x = ConditionFalse c1 \<or> x = Break c1) \<longrightarrow>
      transpile_circuit env fuel rj =
        ((if valid_circuit env b0 c1
          then Some (Jsonify 200 [] (JObj [(''depth'', JNum (depth env c1)),
                                           (''width'', JNum (n_qubits env c1))]))
          else Some (Abort 500)),
         SetupCredentials (sdk rq0) (input_params rq0)
         # PrepareCode (impl_url rq0) (input_params rq0)
         # GetBackend (provider rq0) (qpu_name rq0)
         # tr @ [ValidCircuit c1 (valid_circuit env b0 c1)]))"
  using final_check_events [of c env fuel rj r v] loop_exit_checked [of rj rq0 u name env c0 b0 fuel x tr c1]
  by blast

text \<open>
  The theorem on a pass that lowers \<open>0\<close> to \<open>1\<close> to the tket circuit \<open>2\<close> without raising,
  for a backend that rejects the result: the loop ends by its condition, the final check
  answers false, status 500.
\<close>

theorem final_check_guard_witness:
  "read_fields (request hadamard_url ''ibmq_qasm_simulator'') =
     Inr \<lparr>impl_url = JStr hadamard_url, provider = JStr ''ibmq'', sdk = JStr ''qiskit'',
          qpu_name = JStr ''ibmq_qasm_simulator'', input_params = JStr []\<rparr> \<and>
   re_match_file hadamard_url = Some ''hadamard.py'' \<and>
   prepare_code_from_url (rejecting_env lower_stepwise (Loaded 0)) (JStr hadamard_url) (JStr []) =
     Loaded 0 \<and>
   get_backend (rejecting_env lower_stepwise (Loaded 0)) (JStr ''ibmq'')
     (JStr ''ibmq_qasm_simulator'') = Some () \<and>
   convergence_loop (rejecting_env lower_stepwise (Loaded 0)) (JStr ''qiskit'') () 3 0 False =
     (ConditionFalse 2, [Attempt 0 False (Lowered 1), Attempt 1 False (Lowered 2)]) \<and>
   \<not> valid_circuit (rejecting_env lower_stepwise (Loaded 0)) () 2 \<and>
   transpile_circuit (rejecting_env lower_stepwise (Loaded 0)) 3
     (request hadamard_url ''ibmq_qasm_simulator'') =
   (Some (Abort 500),
    [SetupCredentials (JStr ''qiskit'') (JStr []),
     PrepareCode (JStr hadamard_url) (JStr []),
     GetBackend (JStr ''ibmq'') (JStr ''ibmq_qasm_simulator''),
     Attempt 0 False (Lowered 1),
     Attempt 1 False (Lowered 2),
     ValidCircuit 2 False])"
proof -
  have env: "prepare_code_from_url (rejecting_env lower_stepwise (Loaded 0)) (JStr hadamard_url)
        (JStr []) = Loaded 0"
    "get_backend (rejecting_env lower_stepwise (Loaded 0)) (JStr ''ibmq'')
        (JStr ''ibmq_qasm_simulator'') = Some ()"
    "\<not> valid_circuit (rejecting_env lower_stepwise (Loaded 0)) () 2"
    by (simp_all add: rejecting_env_def stub_env_def)
  from final_check_guard [where env = "rejecting_env lower_stepwise (Loaded 0)" and fuel = 3
      and rj = "request hadamard_url ''ibmq_qasm_simulator''"
      and ?rq0.0 = "\<lparr>impl_url = JStr hadamard_url, provider = JStr ''ibmq'', sdk = JStr ''qiskit'',
        qpu_name = JStr ''ibmq_qasm_simulator'', input_params = JStr []\<rparr>"
      and u = hadamard_url and name = "''hadamard.py''" and ?c0.0 = 0 and ?b0.0 = "()"
      and x = "ConditionFalse 2"
      and tr = "[Attempt 0 False (Lowered 1), Attempt 1 False (Lowered 2)]" and ?c1.0 = 2
      and c = 2]
    env fields_hadamard match_hadamard loop_stepwise
  show ?thesis by simp
qed

subsection \<open>C5: status 400\<close>

text \<open>
  C5 at two requests. The request of \<^verbatim>\<open>test_transpile_hadamard_simulator_file\<close>
  (inline implementation, no \<^verbatim>\<open>impl-url\<close>), with provider, sdk and qpu-name, is
  rejected with status 400, where the claim and the test expect it to be served. A
  request without \<^verbatim>\<open>provider\<close> ends in an uncaught \<^verbatim>\<open>KeyError\<close>, status 500, where
  the claim expects status 400.
\<close>

theorem impl_data_rejected:
  "transpile_circuit (stub_env lower_after_precompile (Loaded 0)) 3 impl_data_request =
     (Some (Abort 400), []) \<and>
   transpile_circuit (stub_env lower_after_precompile (Loaded 0)) 3 no_provider_request =
     (Some (Unhandled (KeyError ''provider'')), [])"
  by code_simp

theorem impl_data_rejected_witness:
  "status_of (fst (transpile_circuit (stub_env lower_after_precompile (Loaded 0)) 3
      impl_data_request)) = Some 400 \<and>
   status_of (fst (transpile_circuit (stub_env lower_after_precompile (Loaded 0)) 3
      no_provider_request)) = Some 500"
  using impl_data_rejected by simp

subsection \<open>C6: unresolved implementation or backend\<close>

text \<open>
  C6, as the code has it, for a request that reaches the loader. When the loader raises,
  the response is status 200 with the exception text in the \<^verbatim>\<open>error\<close> field. When the
  loader returns a circuit and no backend is found for provider and qpu-name, the
  response is status 404.
\<close>

theorem unresolved_responses:
  assumes "read_fields rj = Inr rq" and "impl_url rq = JStr u" and "re_match_file u = Some name"
  shows "(prepare_code_from_url env (impl_url rq) (input_params rq) = LoadRaised msg \<longrightarrow>
            fst (transpile_circuit env fuel rj) =
              Some (Jsonify 200 [] (JObj [(''error'', JStr msg)]))) \<and>
         (prepare_code_from_url env (impl_url rq) (input_params rq) = Loaded c \<and>
          get_backend env (provider rq) (qpu_name rq) = None \<longrightarrow>
            fst (transpile_circuit env fuel rj) = Some (Abort 404))"
  using assms by (simp add: transpile_circuit_def compile_loaded_def error_body_def)

theorem unresolved_responses_witness:
  "read_fields (request hadamard_url ''ibmq_nowhere'') =
     Inr \<lparr>impl_url = JStr hadamard_url, provider = JStr ''ibmq'', sdk = JStr ''qiskit'',
          qpu_name = JStr ''ibmq_nowhere'', input_params = JStr []\<rparr> \<and>
   re_match_file hadamard_url = Some ''hadamard.py'' \<and>
   prepare_code_from_url (stub_env lower_too_many (Loaded 0)) (JStr hadamard_url) (JStr []) =
     Loaded 0 \<and>
   get_backend (stub_env lower_too_many (Loaded 0)) (JStr ''ibmq'') (JStr ''ibmq_nowhere'') = None \<and>
   fst (transpile_circuit (stub_env lower_too_many (Loaded 0)) 3
     (request hadamard_url ''ibmq_nowhere'')) = Some (Abort 404)"
  using unresolved_responses [of "request hadamard_url ''ibmq_nowhere''"
      "\<lparr>impl_url = JStr hadamard_url, provider = JStr ''ibmq'', sdk = JStr ''qiskit'',
        qpu_name = JStr ''ibmq_nowhere'', input_params = JStr []\<rparr>"
      hadamard_url "''hadamard.py''" "stub_env lower_too_many (Loaded 0)" _ 3 0]
  by (simp add: fields_nowhere match_hadamard) (simp add: stub_env_def)

text \<open>
  C6 as stated fails: a loader that raises gives status 200, not 404.
\<close>

theorem load_failure_is_200:
  "transpile_circuit (stub_env lower_too_many (LoadRaised ''HTTP Error 404: Not Found'')) 3
     (request hadamard_url ''ibmq_qasm_simulator'') =
   (Some (Jsonify 200 [] (JObj [(''error'', JStr ''HTTP Error 404: Not Found'')])),
    [SetupCredentials (JStr ''qiskit'') (JStr []),
     PrepareCode (JStr hadamard_url) (JStr [])]) \<and>
   status_of (fst (transpile_circuit
     (stub_env lower_too_many (LoadRaised ''HTTP Error 404: Not Found'')) 3
     (request hadamard_url ''ibmq_qasm_simulator''))) = Some 200"
  by (simp add: run_load_raised)

subsection \<open>C7: execute, then poll\<close>

text \<open>
  C7 at the request of \<^verbatim>\<open>test_transpile_hadamard_simulator_file\<close>, which sends the
  implementation inline and which the test posts to the execute route expecting status
  202. The guard of line 118 answers status 400; nothing is enqueued, no row is stored,
  and a poll of the id ends in the uncaught \<^verbatim>\<open>AttributeError\<close>, where the claim expects
  status 202, an incomplete row and a poll that answers \<^verbatim>\<open>{id, complete: false}\<close>.
\<close>

theorem execute_impl_data_rejected:
  "fst (execute_circuit dummy_results ''7c9e6679-7425-40de-944b-e07fc1f90ae7'' impl_data_request) =
     Abort 400 \<and>
   execute_queue (snd (execute_circuit dummy_results ''7c9e6679-7425-40de-944b-e07fc1f90ae7''
     impl_data_request)) = [] \<and>
   results (snd (execute_circuit dummy_results ''7c9e6679-7425-40de-944b-e07fc1f90ae7''
     impl_data_request)) ''7c9e6679-7425-40de-944b-e07fc1f90ae7'' = None \<and>
   fst (get_result dummy_loads
     (snd (execute_circuit dummy_results ''7c9e6679-7425-40de-944b-e07fc1f90ae7''
        impl_data_request)) ''7c9e6679-7425-40de-944b-e07fc1f90ae7'') = Unhandled AttributeError"
proof -
  have "read_fields impl_data_request = Inl (Abort 400)" by code_simp
  then show ?thesis
    by (simp add: execute_circuit_def get_result_def query_get_def dummy_results_def)
qed

theorem execute_impl_data_rejected_witness:
  "status_code (fst (execute_circuit dummy_results ''7c9e6679-7425-40de-944b-e07fc1f90ae7''
     impl_data_request)) = 400 \<and>
   status_code (fst (get_result dummy_loads
     (snd (execute_circuit dummy_results ''7c9e6679-7425-40de-944b-e07fc1f90ae7''
        impl_data_request)) ''7c9e6679-7425-40de-944b-e07fc1f90ae7'')) = 500"
  using execute_impl_data_rejected by simp

subsection \<open>C8: polling changes nothing\<close>

text \<open>
  C8. \<^verbatim>\<open>get_result\<close> returns the store and the queue as it found them; any number of
  polls of one id give the same response each time; and for a complete row the
  response carries the parsed payload of the row.
\<close>

theorem poll_idempotent:
  "snd (get_result json_loads st result_id) = st \<and>
   polls json_loads st result_id n = (replicate n (fst (get_result json_loads st result_id)), st) \<and>
   (results st result_id = Some row \<and> complete row \<and> result row = Some text \<and>
    json_loads text = Some payload \<longrightarrow>
      fst (get_result json_loads st result_id) =
        Jsonify 200 [] (JObj [(''id'', JStr (row_id row)), (''complete'', JBool True),
                              (''result'', payload)]))"
  by (simp add: polls_same) (simp add: get_result_def query_get_def split: option.splits)

theorem poll_idempotent_witness:
  \<open>results dummy_results ''1'' =
     Some \<lparr>row_id = ''1'', complete = True, result = Some ''{"text" : "I am complete !"}''\<rparr> \<and>
   dummy_loads ''{"text" : "I am complete !"}'' = Some (JObj [(''text'', JStr ''I am complete !'')]) \<and>
   polls dummy_loads dummy_results ''1'' 3 =
     (replicate 3 (Jsonify 200 [] (JObj [(''id'', JStr ''1''), (''complete'', JBool True),
        (''result'', JObj [(''text'', JStr ''I am complete !'')])])), dummy_results)\<close>
  using poll_idempotent [of dummy_loads dummy_results "''1''" 3
      \<open>\<lparr>row_id = ''1'', complete = True, result = Some ''{"text" : "I am complete !"}''\<rparr>\<close>
      \<open>''{"text" : "I am complete !"}''\<close> "JObj [(''text'', JStr ''I am complete !'')]"]
  by (simp add: dummy_results_def dummy_loads_def)

subsection \<open>C9: polling an unknown id\<close>

text \<open>
  C9. Where the store has no row for the id, \<^verbatim>\<open>get_result\<close> ends in the uncaught
  \<^verbatim>\<open>AttributeError\<close> of \<^verbatim>\<open>None.complete\<close>: status 500 and no JSON body.
\<close>

theorem missing_result_crashes:
  assumes "results st result_id = None"
  shows "get_result json_loads st result_id = (Unhandled AttributeError, st) \<and>
         status_code (fst (get_result json_loads st result_id)) = 500 \<and>
         body_keys (fst (get_result json_loads st result_id)) = []"
  using assms by (simp add: get_result_def query_get_def)

theorem missing_result_crashes_witness:
  "results dummy_results ''42'' = None \<and>
   get_result dummy_loads dummy_results ''42'' = (Unhandled AttributeError, dummy_results)"
  using missing_result_crashes [of dummy_results "''42''" dummy_loads]
  by (simp add: dummy_results_def)

subsection \<open>C10: no short name\<close>

text \<open>
  C10, as the code has it. For a request that passes the field checks and whose
  \<^verbatim>\<open>impl-url\<close> is a string with no \<^verbatim>\<open>/\<close> that is followed, anywhere later, by
  \<^verbatim>\<open>.py\<close>, the pattern does not match and the handler ends in the uncaught
  \<^verbatim>\<open>AttributeError\<close> of \<^verbatim>\<open>None.group\<close> before it has called any collaborator.
\<close>

theorem no_py_after_slash:
  assumes "read_fields rj = Inr rq" and "impl_url rq = JStr u"
    and "\<not> (\<exists>a b c. u = a @ ''/'' @ b @ ''.py'' @ c)"
  shows "re_match_file u = None \<and>
         transpile_circuit env fuel rj = (Some (Unhandled AttributeError), [])"
proof -
  from assms(3) re_match_file_Some have "re_match_file u = None"
    by (cases "re_match_file u") blast+
  with assms(1,2) show ?thesis by (simp add: transpile_circuit_def)
qed

theorem no_py_after_slash_witness:
  "CHR ''/'' \<notin> set ''hadamard.py'' \<and>
   transpile_circuit (stub_env lower_too_many (Loaded 0)) 3
     (request ''hadamard.py'' ''ibmq_qasm_simulator'') = (Some (Unhandled AttributeError), [])"
proof -
  have no_slash: "CHR ''/'' \<notin> set ''hadamard.py''" by simp
  have "\<not> (\<exists>a b c. ''hadamard.py'' = a @ ''/'' @ b @ ''.py'' @ c)"
  proof
    assume "\<exists>a b c. ''hadamard.py'' = a @ ''/'' @ b @ ''.py'' @ c"
    then obtain a b c where "''hadamard.py'' = a @ ''/'' @ b @ ''.py'' @ c" by blast
    then have "set ''hadamard.py'' = set (a @ ''/'' @ b @ ''.py'' @ c)" by (rule arg_cong)
    then have "CHR ''/'' \<in> set ''hadamard.py''" by (simp only: set_append) simp
    with no_slash show False by contradiction
  qed
  from no_py_after_slash [OF fields_bare _ this, of "stub_env lower_too_many (Loaded 0)" 3] no_slash
  show ?thesis by simp
qed

text \<open>
  C10 as stated fails: the pattern is not anchored at the end, so it matches a URL
  whose last segment goes on after \<^verbatim>\<open>.py\<close>; no segment of this URL ends in \<^verbatim>\<open>.py\<close>,
  and the request is served.
\<close>

theorem query_string_matches:
  "filter ends_with_py (segments ''https://example.org/circuits/hadamard.py?raw=true'') = [] \<and>
   re_match_file ''https://example.org/circuits/hadamard.py?raw=true'' = Some ''hadamard.py'' \<and>
   transpile_circuit (stub_env lower_after_precompile (Loaded 2)) 3
     (request ''https://example.org/circuits/hadamard.py?raw=true'' ''ibmq_qasm_simulator'') =
   (Some (Jsonify 200 [] (JObj [(''depth'', JNum 2), (''width'', JNum 1)])),
    [SetupCredentials (JStr ''qiskit'') (JStr []),
     PrepareCode (JStr ''https://example.org/circuits/hadamard.py?raw=true'') (JStr []),
     GetBackend (JStr ''ibmq'') (JStr ''ibmq_qasm_simulator''),
     ValidCircuit 2 True])"
  by code_simp

end
